theory Spec2Isabelle
  imports Main "HOL-Library.Word"
begin

section \<open>Conway's Game of Life on a fixed N x M grid (main.cpp)\<close>

subsection \<open>Data model\<close>

text \<open>
  \<^verbatim>\<open>template<size_t N, size_t M> class GameOfLife\<close>: the template parameters are
  parameters \<open>N\<close>, \<open>M\<close> of every operation. \<open>size_t\<close> is the unsigned 64-bit type;
  its arithmetic wraps around.
\<close>

type_synonym size_t = "64 word"

text \<open>
  \<^verbatim>\<open>using Grid = std::array<std::array<bool, M>, N>\<close>: a list of rows. The C++ type
  fixes the shape; here the shape is the predicate \<open>is_Grid\<close>.
\<close>

type_synonym Grid = "bool list list"

definition is_Grid :: "size_t \<Rightarrow> size_t \<Rightarrow> Grid \<Rightarrow> bool" where
  "is_Grid N M g \<longleftrightarrow> length g = unat N \<and> list_all (\<lambda>row. length row = unat M) g"

text \<open>The two members \<^verbatim>\<open>Grid current_grid{}, future_grid{}\<close>.\<close>

record GameOfLife =
  current_grid :: Grid
  future_grid :: Grid

definition wf_GameOfLife :: "size_t \<Rightarrow> size_t \<Rightarrow> GameOfLife \<Rightarrow> bool" where
  "wf_GameOfLife N M s \<longleftrightarrow> is_Grid N M (current_grid s) \<and> is_Grid N M (future_grid s)"

text \<open>Value initialisation \<^verbatim>\<open>{}\<close> of a grid: every cell is \<^verbatim>\<open>false\<close>.\<close>

definition all_dead :: "size_t \<Rightarrow> size_t \<Rightarrow> Grid" where
  "all_dead N M = replicate (unat N) (replicate (unat M) False)"

text \<open>A default-constructed object (\<^verbatim>\<open>GOL gol;\<close>).\<close>

definition GameOfLife_init :: "size_t \<Rightarrow> size_t \<Rightarrow> GameOfLife" where
  "GameOfLife_init N M = \<lparr>current_grid = all_dead N M, future_grid = all_dead N M\<rparr>"

subsection \<open>Neighbour counting and the transition rule\<close>

definition NumberOfNeighbours :: nat where
  "NumberOfNeighbours = 8"

definition NeighbourOffsets :: "(int \<times> int) list" where
  "NeighbourOffsets = [(-1, -1), (-1, 0), (-1, 1), (0, -1), (0, 1), (1, -1), (1, 0), (1, 1)]"

text \<open>
  One iteration of the range-for in \<^verbatim>\<open>numberOfAliveNeighbours\<close>. \<^verbatim>\<open>i + offset.first\<close>
  adds an \<^verbatim>\<open>int\<close> to a \<^verbatim>\<open>size_t\<close>: the \<^verbatim>\<open>int\<close> is converted to \<^verbatim>\<open>size_t\<close> and the sum
  wraps, so \<open>x\<close> and \<open>y\<close> are unsigned and \<open>x \<ge> 0\<close>, \<open>y \<ge> 0\<close> always hold.
\<close>

definition count_offset :: "size_t \<Rightarrow> size_t \<Rightarrow> GameOfLife \<Rightarrow> size_t \<Rightarrow> size_t \<Rightarrow> int \<times> int \<Rightarrow> size_t \<Rightarrow> size_t" where
  "count_offset N M s i j offset alive_neighbours =
     (let x = i + of_int (fst offset);
          y = j + of_int (snd offset)
      in if x \<ge> 0 \<and> y \<ge> 0 \<and> x < N \<and> y < M
         then (if current_grid s ! unat x ! unat y then alive_neighbours + 1 else alive_neighbours)
         else alive_neighbours)"

definition numberOfAliveNeighbours :: "size_t \<Rightarrow> size_t \<Rightarrow> GameOfLife \<Rightarrow> size_t \<Rightarrow> size_t \<Rightarrow> size_t" where
  "numberOfAliveNeighbours N M s i j = fold (count_offset N M s i j) NeighbourOffsets 0"

definition evolveCell :: "size_t \<Rightarrow> size_t \<Rightarrow> GameOfLife \<Rightarrow> size_t \<Rightarrow> size_t \<Rightarrow> bool" where
  "evolveCell N M s i j =
     (let current_state = current_grid s ! unat i ! unat j;
          neighbours = numberOfAliveNeighbours N M s i j
      in if current_state then \<not> (neighbours < 2 \<or> neighbours > 3)
         else neighbours = 3)"

subsection \<open>update\<close>

text \<open>The assignment \<^verbatim>\<open>future_grid[i][j] = evolveCell(i, j)\<close>.\<close>

definition write_future :: "size_t \<Rightarrow> size_t \<Rightarrow> size_t \<Rightarrow> size_t \<Rightarrow> GameOfLife \<Rightarrow> GameOfLife" where
  "write_future N M i j s =
     s\<lparr>future_grid := (future_grid s)[unat i := (future_grid s ! unat i)[unat j := evolveCell N M s i j]]\<rparr>"

text \<open>The inner loop \<^verbatim>\<open>for (size_t j = 0; j < M; ++j)\<close>, entered at \<open>j\<close>.\<close>

function update_cols :: "size_t \<Rightarrow> size_t \<Rightarrow> size_t \<Rightarrow> size_t \<Rightarrow> GameOfLife \<Rightarrow> GameOfLife" where
  "update_cols N M i j s = (if j < M then update_cols N M i (j + 1) (write_future N M i j s) else s)"
  by pat_completeness auto
termination
proof (relation "measure (\<lambda>(N, M, i, j, s). unat M - unat j)")
  fix N M i j :: size_t and s :: GameOfLife
  assume "j < M"
  then show "((N, M, i, j + 1, write_future N M i j s), (N, M, i, j, s))
               \<in> measure (\<lambda>(N, M, i, j, s). unat M - unat j)"
    by simp unat_arith
qed simp

declare update_cols.simps [simp del]

text \<open>The outer loop \<^verbatim>\<open>for (size_t i = 0; i < N; ++i)\<close>, entered at \<open>i\<close>.\<close>

function update_rows :: "size_t \<Rightarrow> size_t \<Rightarrow> size_t \<Rightarrow> GameOfLife \<Rightarrow> GameOfLife" where
  "update_rows N M i s = (if i < N then update_rows N M (i + 1) (update_cols N M i 0 s) else s)"
  by pat_completeness auto
termination
proof (relation "measure (\<lambda>(N, M, i, s). unat N - unat i)")
  fix N M i :: size_t and s :: GameOfLife
  assume "i < N"
  then show "((N, M, i + 1, update_cols N M i 0 s), (N, M, i, s))
               \<in> measure (\<lambda>(N, M, i, s). unat N - unat i)"
    by simp unat_arith
qed simp

declare update_rows.simps [simp del]

definition update :: "size_t \<Rightarrow> size_t \<Rightarrow> GameOfLife \<Rightarrow> GameOfLife" where
  "update N M s = (let s' = update_rows N M 0 s in s'\<lparr>current_grid := future_grid s'\<rparr>)"

subsection \<open>setGrid and getGrid\<close>

text \<open>
  \<^verbatim>\<open>std::copy(first, first + n, d_first)\<close> on flat storage: the first \<open>n\<close> cells of the
  destination are overwritten by the first \<open>n\<close> cells of the source.
\<close>

definition std_copy :: "'a list \<Rightarrow> nat \<Rightarrow> 'a list \<Rightarrow> 'a list" where
  "std_copy src n dst = take n src @ drop n dst"

text \<open>
  The storage of a grid is its rows one after the other (\<open>concat\<close>); \<open>rows_of\<close> reads
  flat storage back as \<open>N\<close> rows of \<open>M\<close> cells.
\<close>

definition rows_of :: "nat \<Rightarrow> nat \<Rightarrow> 'a list \<Rightarrow> 'a list list" where
  "rows_of n m cells = map (\<lambda>i. take m (drop (i * m) cells)) [0..<n]"

text \<open>
  \<^verbatim>\<open>void setGrid(Grid &g) { std::copy(&g[0][0], &g[0][0] + N * M, &current_grid[0][0]); }\<close>
  The count \<open>N * M\<close> is a \<open>size_t\<close> product. The function returns nothing and has no
  failure path.
\<close>

definition setGrid :: "size_t \<Rightarrow> size_t \<Rightarrow> Grid \<Rightarrow> GameOfLife \<Rightarrow> GameOfLife" where
  "setGrid N M g s =
     s\<lparr>current_grid := rows_of (unat N) (unat M)
          (std_copy (concat g) (unat (N * M)) (concat (current_grid s)))\<rparr>"

definition getGrid :: "GameOfLife \<Rightarrow> Grid" where
  "getGrid s = current_grid s"

subsection \<open>The rule in the words of the specification\<close>

text \<open>
  The Moore neighbourhood: all \<open>(di, dj)\<close> with \<open>di, dj \<in> {-1, 0, 1}\<close> except \<open>(0, 0)\<close>.
\<close>

definition Moore_offsets :: "(int \<times> int) list" where
  "Moore_offsets = filter (\<lambda>d. d \<noteq> (0, 0)) (List.product [-1, 0, 1] [-1, 0, 1])"

text \<open>The position \<open>(x, y)\<close> lies within \<open>[0, R) x [0, C)\<close>.\<close>

definition in_bounds :: "nat \<Rightarrow> nat \<Rightarrow> int \<Rightarrow> int \<Rightarrow> bool" where
  "in_bounds R C x y \<longleftrightarrow> 0 \<le> x \<and> x < int R \<and> 0 \<le> y \<and> y < int C"

text \<open>A position outside the grid is never alive; inside, it is as the grid says.\<close>

definition live_at :: "nat \<Rightarrow> nat \<Rightarrow> Grid \<Rightarrow> int \<Rightarrow> int \<Rightarrow> bool" where
  "live_at R C g x y \<longleftrightarrow> in_bounds R C x y \<and> g ! nat x ! nat y"

text \<open>The number of Moore offsets of \<open>(i, j)\<close> that lead to a live cell inside the grid.\<close>

definition live_neighbours :: "nat \<Rightarrow> nat \<Rightarrow> Grid \<Rightarrow> nat \<Rightarrow> nat \<Rightarrow> nat" where
  "live_neighbours R C g i j =
     length (filter (\<lambda>(di, dj). live_at R C g (int i + di) (int j + dj)) Moore_offsets)"

text \<open>The components of the offsets in \<^verbatim>\<open>NeighbourOffsets\<close>.\<close>

definition unit_step :: "int \<Rightarrow> bool" where
  "unit_step d \<longleftrightarrow> d = -1 \<or> d = 0 \<or> d = 1"

text \<open>
  A live cell with exactly 2 or 3 live neighbours stays alive and otherwise dies; a dead cell
  with exactly 3 live neighbours becomes alive and otherwise stays dead.
\<close>

definition Life_rule :: "bool \<Rightarrow> nat \<Rightarrow> bool" where
  "Life_rule alive n = (if alive then n = 2 \<or> n = 3 else n = 3)"

text \<open>The next generation of a grid: the rule at every cell, from the grid as it is.\<close>

definition Life_generation :: "nat \<Rightarrow> nat \<Rightarrow> Grid \<Rightarrow> Grid" where
  "Life_generation R C g =
     map (\<lambda>i. map (\<lambda>j. Life_rule (g ! i ! j) (live_neighbours R C g i j)) [0..<C]) [0..<R]"

subsection \<open>Seeding in main\<close>

text \<open>
  \<^verbatim>\<open>GOL::Grid glider_layout {{ {false, true, false}, ... }};\<close> is aggregate
  initialisation of the full \<open>N x M\<close> array: the listed cells fill each row from its
  first column and the rows from the first row, and every cell without an initialiser is
  value-initialised to \<^verbatim>\<open>false\<close>. An initialiser list with more rows than \<open>N\<close> or a row
  with more cells than \<open>M\<close> is ill-formed (the program does not compile): \<open>None\<close>.
\<close>

definition pad_to :: "nat \<Rightarrow> 'a \<Rightarrow> 'a list \<Rightarrow> 'a list" where
  "pad_to n x xs = xs @ replicate (n - length xs) x"

definition aggregate_init :: "size_t \<Rightarrow> size_t \<Rightarrow> bool list list \<Rightarrow> Grid option" where
  "aggregate_init N M rows =
     (if length rows \<le> unat N \<and> list_all (\<lambda>row. length row \<le> unat M) rows
      then Some (pad_to (unat N) (replicate (unat M) False) (map (pad_to (unat M) False) rows))
      else None)"

definition glider_initializer :: "bool list list" where
  "glider_initializer =
     [[False, True, False],
      [False, False, True],
      [True, True, True],
      [False, False, False]]"

text \<open>
  The grid that \<^verbatim>\<open>print_grid\<close> shows in \<^verbatim>\<open>main\<close> after \<open>n\<close> calls of \<^verbatim>\<open>gol.update()\<close>:
  \<^verbatim>\<open>GOL gol; gol.setGrid(glider_layout);\<close> and then the loop of updates, with
  \<^verbatim>\<open>GOL = GameOfLife<10, 10>\<close>.
\<close>

definition main_grid_after :: "nat \<Rightarrow> Grid option" where
  "main_grid_after n =
     map_option
       (\<lambda>glider_layout. getGrid ((update 10 10 ^^ n) (setGrid 10 10 glider_layout (GameOfLife_init 10 10))))
       (aggregate_init 10 10 glider_initializer)"

subsection \<open>Example states\<close>

text \<open>
  Two states of a \<^verbatim>\<open>GameOfLife<3, 3>\<close> with the same current grid (a vertical blinker) and
  different scratch buffers. The first arises from a default-constructed object by
  \<^verbatim>\<open>setGrid\<close> of the blinker, \<^verbatim>\<open>update\<close> and \<^verbatim>\<open>setGrid\<close> of the blinker again; the second by
  \<^verbatim>\<open>setGrid\<close> of the blinker alone.
\<close>

definition example_state :: GameOfLife where
  "example_state =
     \<lparr>current_grid = [[False, True, False], [False, True, False], [False, True, False]],
      future_grid = [[False, False, False], [True, True, True], [False, False, False]]\<rparr>"

definition example_state' :: GameOfLife where
  "example_state' =
     \<lparr>current_grid = [[False, True, False], [False, True, False], [False, True, False]],
      future_grid = [[False, False, False], [False, False, False], [False, False, False]]\<rparr>"

subsection \<open>Example inputs\<close>

text \<open>A horizontal blinker on the \<open>3 x 3\<close> grid.\<close>

definition example_grid :: Grid where
  "example_grid = [[False, False, False], [True, True, True], [False, False, False]]"

text \<open>The glider of \<^verbatim>\<open>main\<close> on the \<open>10 x 10\<close> grid, and its next four generations.\<close>

definition glider_generation_0 :: Grid where
  "glider_generation_0 =
     [[False, True, False, False, False, False, False, False, False, False],
      [False, False, True, False, False, False, False, False, False, False],
      [True, True, True, False, False, False, False, False, False, False],
      [False, False, False, False, False, False, False, False, False, False],
      [False, False, False, False, False, False, False, False, False, False],
      [False, False, False, False, False, False, False, False, False, False],
      [False, False, False, False, False, False, False, False, False, False],
      [False, False, False, False, False, False, False, False, False, False],
      [False, False, False, False, False, False, False, False, False, False],
      [False, False, False, False, False, False, False, False, False, False]]"

definition glider_generation_1 :: Grid where
  "glider_generation_1 =
     [[False, False, False, False, False, False, False, False, False, False],
      [True, False, True, False, False, False, False, False, False, False],
      [False, True, True, False, False, False, False, False, False, False],
      [False, True, False, False, False, False, False, False, False, False],
      [False, False, False, False, False, False, False, False, False, False],
      [False, False, False, False, False, False, False, False, False, False],
      [False, False, False, False, False, False, False, False, False, False],
      [False, False, False, False, False, False, False, False, False, False],
      [False, False, False, False, False, False, False, False, False, False],
      [False, False, False, False, False, False, False, False, False, False]]"

definition glider_generation_2 :: Grid where
  "glider_generation_2 =
     [[False, False, False, False, False, False, False, False, False, False],
      [False, False, True, False, False, False, False, False, False, False],
      [True, False, True, False, False, False, False, False, False, False],
      [False, True, True, False, False, False, False, False, False, False],
      [False, False, False, False, False, False, False, False, False, False],
      [False, False, False, False, False, False, False, False, False, False],
      [False, False, False, False, False, False, False, False, False, False],
      [False, False, False, False, False, False, False, False, False, False],
      [False, False, False, False, False, False, False, False, False, False],
      [False, False, False, False, False, False, False, False, False, False]]"

definition glider_generation_3 :: Grid where
  "glider_generation_3 =
     [[False, False, False, False, False, False, False, False, False, False],
      [False, True, False, False, False, False, False, False, False, False],
      [False, False, True, True, False, False, False, False, False, False],
      [False, True, True, False, False, False, False, False, False, False],
      [False, False, False, False, False, False, False, False, False, False],
      [False, False, False, False, False, False, False, False, False, False],
      [False, False, False, False, False, False, False, False, False, False],
      [False, False, False, False, False, False, False, False, False, False],
      [False, False, False, False, False, False, False, False, False, False],
      [False, False, False, False, False, False, False, False, False, False]]"

definition glider_generation_4 :: Grid where
  "glider_generation_4 =
     [[False, False, False, False, False, False, False, False, False, False],
      [False, False, True, False, False, False, False, False, False, False],
      [False, False, False, True, False, False, False, False, False, False],
      [False, True, True, True, False, False, False, False, False, False],
      [False, False, False, False, False, False, False, False, False, False],
      [False, False, False, False, False, False, False, False, False, False],
      [False, False, False, False, False, False, False, False, False, False],
      [False, False, False, False, False, False, False, False, False, False],
      [False, False, False, False, False, False, False, False, False, False],
      [False, False, False, False, False, False, False, False, False, False]]"

text \<open>
  The grid \<open>g\<close> moved by \<open>di\<close> rows and \<open>dj\<close> columns: cell \<open>(i, j)\<close> of the result is
  cell \<open>(i - di, j - dj)\<close> of \<open>g\<close>, and dead where that is outside.
\<close>

definition translate_grid :: "nat \<Rightarrow> nat \<Rightarrow> Grid \<Rightarrow> Grid" where
  "translate_grid di dj g =
     map (\<lambda>i. map (\<lambda>j. di \<le> i \<and> dj \<le> j \<and> g ! (i - di) ! (j - dj)) [0..<length (g ! i)])
       [0..<length g]"

text \<open>The \<open>R x C\<close> grid whose live cells are exactly those of the list that lie inside it.\<close>

definition grid_of_cells :: "nat \<Rightarrow> nat \<Rightarrow> (nat \<times> nat) list \<Rightarrow> Grid" where
  "grid_of_cells R C cells = map (\<lambda>i. map (\<lambda>j. (i, j) \<in> set cells) [0..<C]) [0..<R]"

text \<open>A \<^verbatim>\<open>GameOfLife<5, 5>\<close> whose current grid is a horizontal blinker in row 2, columns 1 to 3.\<close>

definition blinker_state :: GameOfLife where
  "blinker_state =
     \<lparr>current_grid =
        [[False, False, False, False, False],
         [False, False, False, False, False],
         [False, True, True, True, False],
         [False, False, False, False, False],
         [False, False, False, False, False]],
      future_grid = all_dead 5 5\<rparr>"

section \<open>Properties of the loops\<close>

text \<open>
  \<^verbatim>\<open>evolveCell\<close> reads the current grid only, and the loops never write it.
\<close>

lemma evolveCell_cong:
  assumes "current_grid s' = current_grid s"
  shows "evolveCell N M s' i j = evolveCell N M s i j"
  unfolding evolveCell_def numberOfAliveNeighbours_def count_offset_def [abs_def] assms
  by (rule refl)

lemma current_grid_write_future [simp]:
  "current_grid (write_future N M i j s) = current_grid s"
  by (simp add: write_future_def)

lemma current_grid_update_cols [simp]:
  "current_grid (update_cols N M i j s) = current_grid s"
proof (induction N M i j s rule: update_cols.induct)
  case (1 N M i j s)
  then show ?case by (subst update_cols.simps) simp
qed

lemma current_grid_update_rows [simp]:
  "current_grid (update_rows N M i s) = current_grid s"
proof (induction N M i s rule: update_rows.induct)
  case (1 N M i s)
  then show ?case by (subst update_rows.simps) simp
qed

lemma unat_Suc_less: "(j :: size_t) < M \<Longrightarrow> unat (j + 1) = Suc (unat j)"
  by unat_arith

lemma Suc_le_word: "(j :: size_t) < M \<Longrightarrow> j + 1 \<le> M"
  by unat_arith

text \<open>
  The inner loop entered at column \<open>j\<close> leaves the columns before \<open>j\<close> of row \<open>i\<close> as they
  are and writes \<^verbatim>\<open>evolveCell\<close> of the state at entry into the others.
\<close>

lemma future_grid_update_cols:
  "unat i < length (future_grid s) \<Longrightarrow> length (future_grid s ! unat i) = unat M \<Longrightarrow> j \<le> M \<Longrightarrow>
   future_grid (update_cols N M i j s) =
     (future_grid s)[unat i := take (unat j) (future_grid s ! unat i) @
        map (\<lambda>k. evolveCell N M s i (of_nat k)) [unat j..<unat M]]"
proof (induction N M i j s rule: update_cols.induct)
  case (1 N M i j s)
  show ?case
  proof (cases "j < M")
    case True
    let ?s' = "write_future N M i j s"
    have suc: "unat (j + 1) = Suc (unat j)" using True by (rule unat_Suc_less)
    have jM: "unat j < unat M" using True by (simp add: word_less_nat_alt)
    have le: "j + 1 \<le> M" using True by (rule Suc_le_word)
    have fg: "future_grid ?s' = (future_grid s)[unat i := (future_grid s ! unat i)[unat j := evolveCell N M s i j]]"
      by (simp add: write_future_def)
    have ev: "evolveCell N M ?s' i = evolveCell N M s i"
      by (rule ext, rule evolveCell_cong) simp
    have "future_grid (update_cols N M i (j + 1) ?s') =
      (future_grid ?s')[unat i := take (unat (j + 1)) (future_grid ?s' ! unat i) @
        map (\<lambda>k. evolveCell N M ?s' i (of_nat k)) [unat (j + 1)..<unat M]]"
      using "1.IH" [OF True] "1.prems" le by (simp add: fg)
    also have "\<dots> = (future_grid s)[unat i := take (unat j) (future_grid s ! unat i) @
        map (\<lambda>k. evolveCell N M s i (of_nat k)) [unat j..<unat M]]"
      using "1.prems" jM
      by (simp add: fg ev suc take_Suc_conv_app_nth upt_conv_Cons [of "unat j"])
    finally show ?thesis using True by (subst update_cols.simps) simp
  next
    case False
    with "1.prems" have "j = M" by simp
    then show ?thesis using "1.prems" by (subst update_cols.simps) (simp add: list_update_same_conv)
  qed
qed

lemma is_Grid_nth: "is_Grid N M g \<Longrightarrow> r < unat N \<Longrightarrow> length (g ! r) = unat M"
  by (simp add: is_Grid_def list_all_length)

lemma is_Grid_length: "is_Grid N M g \<Longrightarrow> length g = unat N"
  by (simp add: is_Grid_def)

lemma is_Grid_list_update:
  "is_Grid N M g \<Longrightarrow> length row = unat M \<Longrightarrow> is_Grid N M (g[r := row])"
  by (cases "r < length g") (auto simp: is_Grid_def list_all_length nth_list_update)

text \<open>
  The outer loop entered at row \<open>i\<close> leaves the rows before \<open>i\<close> as they are and writes the
  others completely.
\<close>

lemma future_grid_update_rows:
  "is_Grid N M (future_grid s) \<Longrightarrow> i \<le> N \<Longrightarrow>
   future_grid (update_rows N M i s) =
     take (unat i) (future_grid s) @
     map (\<lambda>r. map (\<lambda>k. evolveCell N M s (of_nat r) (of_nat k)) [0..<unat M]) [unat i..<unat N]"
proof (induction N M i s rule: update_rows.induct)
  case (1 N M i s)
  show ?case
  proof (cases "i < N")
    case True
    let ?s' = "update_cols N M i 0 s"
    let ?row = "map (\<lambda>k. evolveCell N M s i (of_nat k)) [0..<unat M]"
    have suc: "unat (i + 1) = Suc (unat i)" using True by (rule unat_Suc_less)
    have iN: "unat i < unat N" using True by (simp add: word_less_nat_alt)
    have le: "i + 1 \<le> N" using True by (rule Suc_le_word)
    have len: "unat i < length (future_grid s)"
      using "1.prems"(1) iN by (simp add: is_Grid_length)
    have fg: "future_grid ?s' = (future_grid s)[unat i := ?row]"
      using future_grid_update_cols [of i s M 0 N] len is_Grid_nth [OF "1.prems"(1) iN]
      by simp
    have grid': "is_Grid N M (future_grid ?s')"
      unfolding fg using "1.prems"(1) by (rule is_Grid_list_update) simp
    have ev: "evolveCell N M ?s' = evolveCell N M s"
      by (rule ext, rule ext, rule evolveCell_cong) simp
    have "future_grid (update_rows N M (i + 1) ?s') =
      take (unat (i + 1)) (future_grid ?s') @
      map (\<lambda>r. map (\<lambda>k. evolveCell N M ?s' (of_nat r) (of_nat k)) [0..<unat M]) [unat (i + 1)..<unat N]"
      using "1.IH" [OF True grid' le] .
    also have "\<dots> = take (unat i) (future_grid s) @
      map (\<lambda>r. map (\<lambda>k. evolveCell N M s (of_nat r) (of_nat k)) [0..<unat M]) [unat i..<unat N]"
      using len iN
      by (simp add: fg ev suc take_Suc_conv_app_nth upt_conv_Cons [of "unat i"])
    finally show ?thesis using True by (subst update_rows.simps) simp
  next
    case False
    with "1.prems" have "i = N" by simp
    then show ?thesis using "1.prems" by (subst update_rows.simps) (simp add: is_Grid_length)
  qed
qed

lemma current_grid_update:
  assumes "is_Grid N M (future_grid s)"
  shows "current_grid (update N M s) =
     map (\<lambda>r. map (\<lambda>k. evolveCell N M s (of_nat r) (of_nat k)) [0..<unat M]) [0..<unat N]"
  using future_grid_update_rows [OF assms, of 0] by (simp add: update_def Let_def)

lemma future_grid_update:
  "future_grid (update N M s) = current_grid (update N M s)"
  by (simp add: update_def Let_def)

lemma Moore_offsets_eq: "Moore_offsets = NeighbourOffsets"
  by (simp add: Moore_offsets_def NeighbourOffsets_def)

text \<open>
  Index arithmetic. The offset \<open>-1\<close> converted to \<^verbatim>\<open>size_t\<close> is \<open>2^64 - 1\<close>; added to an index
  below \<open>N\<close> it gives the index before it, or at index 0 a value that is not below \<open>N\<close>.
\<close>

lemma minus_one_wraps: "(0 :: size_t) + of_int (-1) = 18446744073709551615"
  by simp

lemma word_pred: "(i :: size_t) < N \<Longrightarrow>
  (i - 1 < N \<longleftrightarrow> 0 < unat i) \<and> (0 < unat i \<longrightarrow> unat (i - 1) = unat i - 1)"
  by unat_arith

lemma word_succ: "(i :: size_t) < N \<Longrightarrow>
  (i + 1 < N \<longleftrightarrow> Suc (unat i) < unat N) \<and> unat (i + 1) = Suc (unat i)"
  by unat_arith

lemma axis:
  fixes i N :: size_t
  assumes "i < N" and "d = -1 \<or> d = 0 \<or> d = 1"
  shows "(i + of_int d < N) = (0 \<le> int (unat i) + d \<and> int (unat i) + d < int (unat N))"
    and "i + of_int d < N \<Longrightarrow> unat (i + of_int d) = nat (int (unat i) + d)"
proof -
  define n where "n = unat i"
  define m where "m = unat N"
  have nm: "n < m" using assms(1) by (simp add: n_def m_def word_less_nat_alt)
  have p: "(i - 1 < N \<longleftrightarrow> 0 < n) \<and> (0 < n \<longrightarrow> unat (i - 1) = n - 1)"
    using word_pred [OF assms(1)] by (simp add: n_def)
  have q: "(i + 1 < N \<longleftrightarrow> Suc n < m) \<and> unat (i + 1) = Suc n"
    using word_succ [OF assms(1)] by (simp add: n_def m_def)
  have "(i + of_int d < N) = (0 \<le> int n + d \<and> int n + d < int m) \<and>
        (i + of_int d < N \<longrightarrow> unat (i + of_int d) = nat (int n + d))"
    using assms(2)
  proof (elim disjE)
    assume "d = -1"
    then show ?thesis using p nm by auto
  next
    assume "d = 0"
    moreover have "unat i = n" by (simp add: n_def)
    ultimately show ?thesis using nm assms(1) by (simp only: of_int_0 add_0_right) simp
  next
    assume "d = 1"
    then show ?thesis using q nm by (auto simp: nat_add_distrib)
  qed
  then show "(i + of_int d < N) = (0 \<le> int (unat i) + d \<and> int (unat i) + d < int (unat N))"
    and "i + of_int d < N \<Longrightarrow> unat (i + of_int d) = nat (int (unat i) + d)"
    by (simp_all only: n_def m_def)
qed

text \<open>
  One iteration of the range-for counts the offset exactly when it leads to a live cell
  inside the grid.
\<close>

lemma count_offset_live_at:
  fixes i j N M :: size_t
  assumes "i < N" "j < M" "unit_step di" "unit_step dj"
  shows "count_offset N M s i j (di, dj) a =
     (if live_at (unat N) (unat M) (current_grid s) (int (unat i) + di) (int (unat j) + dj)
      then a + 1 else a)"
proof -
  have di: "di = -1 \<or> di = 0 \<or> di = 1" and dj: "dj = -1 \<or> dj = 0 \<or> dj = 1"
    using assms(3,4) by (simp_all add: unit_step_def)
  note x = axis [OF assms(1) di]
  note y = axis [OF assms(2) dj]
  show ?thesis
  proof (cases "i + of_int di < N \<and> j + of_int dj < M")
    case True
    then have "unat (i + of_int di) = nat (int (unat i) + di)"
      and "unat (j + of_int dj) = nat (int (unat j) + dj)"
      using x(2) y(2) by blast+
    moreover have "in_bounds (unat N) (unat M) (int (unat i) + di) (int (unat j) + dj)"
      using True x(1) y(1) unfolding in_bounds_def by blast
    ultimately show ?thesis using True
      by (simp only: count_offset_def Let_def fst_conv snd_conv live_at_def) simp
  next
    case False
    then have "\<not> in_bounds (unat N) (unat M) (int (unat i) + di) (int (unat j) + dj)"
      using x(1) y(1) unfolding in_bounds_def by blast
    then show ?thesis using False
      by (simp only: count_offset_def Let_def fst_conv snd_conv live_at_def) simp
  qed
qed

lemma fold_count_offset:
  fixes i j N M :: size_t
  assumes "i < N" "j < M"
  shows "list_all (\<lambda>(di, dj). unit_step di \<and> unit_step dj) offs \<Longrightarrow>
    fold (count_offset N M s i j) offs a =
    a + of_nat (length (filter (\<lambda>(di, dj).
          live_at (unat N) (unat M) (current_grid s) (int (unat i) + di) (int (unat j) + dj)) offs))"
proof (induction offs arbitrary: a)
  case Nil
  then show ?case by simp
next
  case (Cons d offs)
  obtain di dj where d: "d = (di, dj)" by (cases d)
  from Cons.prems have u: "unit_step di" "unit_step dj"
    and rest: "list_all (\<lambda>(di, dj). unit_step di \<and> unit_step dj) offs"
    by (simp_all add: d)
  show ?case
    using Cons.IH [OF rest] count_offset_live_at [OF assms u, of s a]
    by (simp only: d fold_simps filter.simps split_conv) simp
qed

lemma length_NeighbourOffsets: "length NeighbourOffsets = NumberOfNeighbours"
  by (simp add: NeighbourOffsets_def NumberOfNeighbours_def)

lemma NeighbourOffsets_unit: "list_all (\<lambda>(di, dj). unit_step di \<and> unit_step dj) NeighbourOffsets"
  by (simp add: NeighbourOffsets_def unit_step_def)

lemma live_neighbours_le: "live_neighbours R C g i j \<le> 8"
proof -
  have "live_neighbours R C g i j \<le> length Moore_offsets"
    unfolding live_neighbours_def by (rule length_filter_le)
  then show ?thesis by (simp add: Moore_offsets_def)
qed

lemma numberOfAliveNeighbours_eq:
  fixes i j N M :: size_t
  assumes "i < N" "j < M"
  shows "numberOfAliveNeighbours N M s i j =
    of_nat (live_neighbours (unat N) (unat M) (current_grid s) (unat i) (unat j))"
  using fold_count_offset [OF assms NeighbourOffsets_unit, of s 0]
  by (simp add: numberOfAliveNeighbours_def live_neighbours_def Moore_offsets_eq)

lemma unat_numberOfAliveNeighbours:
  fixes i j N M :: size_t
  assumes "i < N" "j < M"
  shows "unat (numberOfAliveNeighbours N M s i j) =
    live_neighbours (unat N) (unat M) (current_grid s) (unat i) (unat j)"
proof -
  have "live_neighbours (unat N) (unat M) (current_grid s) (unat i) (unat j) < 2 ^ 64"
    using live_neighbours_le [of "unat N" "unat M" "current_grid s" "unat i" "unat j"] by simp
  then show ?thesis
    by (simp add: numberOfAliveNeighbours_eq [OF assms] unat_of_nat)
qed

text \<open>
  The comparisons of \<^verbatim>\<open>evolveCell\<close> on the \<^verbatim>\<open>size_t\<close> count are those of the rule on the
  number of live neighbours, which is at most 8.
\<close>

lemma evolveCell_Life_rule:
  fixes i j N M :: size_t
  assumes "i < N" "j < M"
  shows "evolveCell N M s i j =
    Life_rule (current_grid s ! unat i ! unat j)
      (live_neighbours (unat N) (unat M) (current_grid s) (unat i) (unat j))"
proof -
  define w where "w = numberOfAliveNeighbours N M s i j"
  define n where "n = live_neighbours (unat N) (unat M) (current_grid s) (unat i) (unat j)"
  have wn: "unat w = n"
    unfolding w_def n_def by (rule unat_numberOfAliveNeighbours [OF assms])
  have "w < 2 \<longleftrightarrow> n < 2" "w > 3 \<longleftrightarrow> n > 3"
    using wn by (auto simp: word_less_nat_alt)
  moreover have "w = 3 \<longleftrightarrow> n = 3"
    using wn word_unat_eq_iff [of w 3] by simp
  ultimately
  have "(if current_grid s ! unat i ! unat j then \<not> (w < 2 \<or> w > 3) else w = 3) =
     Life_rule (current_grid s ! unat i ! unat j) n"
    unfolding Life_rule_def by auto
  then show ?thesis
    by (simp only: evolveCell_def Let_def w_def n_def)
qed

lemma unat_of_nat_less:
  fixes N :: size_t
  assumes "r < unat N"
  shows "unat (of_nat r :: size_t) = r" and "(of_nat r :: size_t) < N"
proof -
  have "unat N < 2 ^ 64" using unsigned_less [of N, where 'a = nat] by simp
  with assms have "r < 2 ^ 64" by simp
  then show u: "unat (of_nat r :: size_t) = r" by (simp add: unat_of_nat)
  show "(of_nat r :: size_t) < N" using assms by (simp add: word_less_nat_alt u)
qed

lemma current_grid_update_Life:
  assumes "is_Grid N M (future_grid s)"
  shows "current_grid (update N M s) = Life_generation (unat N) (unat M) (current_grid s)"
  unfolding current_grid_update [OF assms] Life_generation_def
  by (auto simp: evolveCell_Life_rule unat_of_nat_less)

lemma is_Grid_Life_generation: "is_Grid N M (Life_generation (unat N) (unat M) g)"
  by (simp add: is_Grid_def Life_generation_def list_all_iff)

lemma wf_update: "wf_GameOfLife N M s \<Longrightarrow> wf_GameOfLife N M (update N M s)"
  by (simp add: wf_GameOfLife_def future_grid_update current_grid_update_Life is_Grid_Life_generation)

section \<open>Properties of setGrid and of seeding\<close>

text \<open>
  Copying the storage of a grid of the right shape gives that grid, whatever follows the
  copied cells.
\<close>

lemma rows_of_Suc:
  "length row = m \<Longrightarrow> rows_of (Suc n) m (row @ cells) = row # rows_of n m cells"
  by (simp add: rows_of_def upt_rec [of 0 "Suc n"] map_Suc_upt [symmetric] del: upt_Suc)

lemma rows_of_concat:
  "list_all (\<lambda>row. length row = m) g \<Longrightarrow> rows_of (length g) m (concat g @ rest) = g"
proof (induction g)
  case Nil
  then show ?case by (simp add: rows_of_def)
next
  case (Cons row g)
  then show ?case by (simp add: rows_of_Suc)
qed

lemma length_concat_Grid:
  "list_all (\<lambda>row. length row = m) g \<Longrightarrow> length (concat g) = length g * m"
  by (induction g) simp_all

lemma current_grid_setGrid:
  assumes "is_Grid N M g" and "unat N * unat M < 2 ^ 64"
  shows "current_grid (setGrid N M g s) = g"
proof -
  have rows: "list_all (\<lambda>row. length row = unat M) g" and len: "length g = unat N"
    using assms(1) by (simp_all add: is_Grid_def)
  have n: "unat (N * M) = unat N * unat M"
    using assms(2) by (simp add: unat_mult_lem [THEN iffD1])
  have "length (concat g) = unat (N * M)"
    using length_concat_Grid [OF rows] by (simp add: len n)
  then have "std_copy (concat g) (unat (N * M)) (concat (current_grid s)) =
     concat g @ drop (unat (N * M)) (concat (current_grid s))"
    by (simp add: std_copy_def)
  then show ?thesis
    using rows_of_concat [OF rows] by (simp add: setGrid_def len)
qed

lemma future_grid_setGrid: "future_grid (setGrid N M g s) = future_grid s"
  by (simp add: setGrid_def)

lemma wf_setGrid:
  "wf_GameOfLife N M s \<Longrightarrow> is_Grid N M g \<Longrightarrow> unat N * unat M < 2 ^ 64 \<Longrightarrow>
   wf_GameOfLife N M (setGrid N M g s)"
  by (simp add: wf_GameOfLife_def current_grid_setGrid future_grid_setGrid)

lemma is_Grid_all_dead: "is_Grid N M (all_dead N M)"
  by (simp add: is_Grid_def all_dead_def list_all_iff)

lemma wf_init: "wf_GameOfLife N M (GameOfLife_init N M)"
  by (simp add: wf_GameOfLife_def GameOfLife_init_def is_Grid_all_dead)

text \<open>
  A grid has exactly \<open>N\<close> rows of \<open>M\<close> cells, and an initialiser list with more rows or a longer
  row initialises no grid.
\<close>

lemma is_Grid_shape:
  "is_Grid N M g \<Longrightarrow> \<not> unat N < length g \<and> \<not> list_ex (\<lambda>row. unat M < length row) g"
  by (auto simp: is_Grid_def list_all_iff list_ex_iff)

lemma aggregate_init_too_large:
  "unat N < length rows \<or> list_ex (\<lambda>row. unat M < length row) rows \<Longrightarrow>
   aggregate_init N M rows = None"
  by (fastforce simp: aggregate_init_def list_all_iff list_ex_iff linorder_not_le)

lemma aggregate_init_is_Grid:
  "aggregate_init N M rows = Some g \<Longrightarrow> is_Grid N M g"
  by (auto simp: aggregate_init_def is_Grid_def pad_to_def list_all_iff split: if_splits)

lemma aggregate_init_nth:
  assumes "aggregate_init N M rows = Some g" "i < unat N" "j < unat M"
  shows "g ! i ! j = (i < length rows \<and> j < length (rows ! i) \<and> rows ! i ! j)"
proof -
  have fit: "length rows \<le> unat N" "list_all (\<lambda>row. length row \<le> unat M) rows"
    and g: "g = pad_to (unat N) (replicate (unat M) False) (map (pad_to (unat M) False) rows)"
    using assms(1) by (auto simp: aggregate_init_def split: if_splits)
  show ?thesis
  proof (cases "i < length rows")
    case True
    then have "g ! i = pad_to (unat M) False (rows ! i)"
      by (simp add: g pad_to_def nth_append)
    then show ?thesis using True assms(3)
      by (simp add: pad_to_def nth_append)
  next
    case False
    then have "g ! i = replicate (unat M) False"
      using assms(2) by (simp add: g pad_to_def nth_append)
    then show ?thesis using False assms(3) by simp
  qed
qed

section \<open>Generations of particular grids\<close>

lemma is_Grid_example_grid: "is_Grid 3 3 example_grid"
  by (simp add: is_Grid_def example_grid_def)

lemma fits_3_3: "unat (3 :: size_t) * unat (3 :: size_t) < 2 ^ 64"
  by simp

lemma not_live_at_replicate: "\<not> live_at R C (replicate R (replicate C False)) x y"
proof
  assume a: "live_at R C (replicate R (replicate C False)) x y"
  then have "nat x < R" "nat y < C"
    by (simp_all add: live_at_def in_bounds_def nat_less_iff)
  then show False using a by (simp add: live_at_def)
qed

lemma live_neighbours_all_dead: "live_neighbours (unat N) (unat M) (all_dead N M) i j = 0"
  by (simp add: live_neighbours_def all_dead_def not_live_at_replicate)

lemma Life_generation_all_dead:
  "Life_generation (unat N) (unat M) (all_dead N M) = all_dead N M"
proof -
  have "Life_generation (unat N) (unat M) (all_dead N M) =
      map (\<lambda>i. map (\<lambda>j. False) [0..<unat M]) [0..<unat N]"
    unfolding Life_generation_def
    by (intro map_cong refl)
      (simp add: live_neighbours_all_dead [unfolded all_dead_def] Life_rule_def all_dead_def)
  then show ?thesis
    by (simp add: all_dead_def map_replicate_const)
qed

lemma current_grid_funpow_update:
  "wf_GameOfLife N M s \<Longrightarrow>
   wf_GameOfLife N M ((update N M ^^ n) s) \<and>
   current_grid ((update N M ^^ n) s) = (Life_generation (unat N) (unat M) ^^ n) (current_grid s)"
proof (induction n)
  case 0
  then show ?case by simp
next
  case (Suc n)
  then have wf: "wf_GameOfLife N M ((update N M ^^ n) s)"
    and cur: "current_grid ((update N M ^^ n) s) =
      (Life_generation (unat N) (unat M) ^^ n) (current_grid s)"
    by simp_all
  have fut: "is_Grid N M (future_grid ((update N M ^^ n) s))"
    using wf by (simp add: wf_GameOfLife_def)
  show ?case
    using wf_update [OF wf] by (simp add: current_grid_update_Life [OF fut] cur)
qed

lemma glider_layout_eq: "aggregate_init 10 10 glider_initializer = Some glider_generation_0"
  by code_simp

lemma is_Grid_glider_generation_0: "is_Grid 10 10 glider_generation_0"
  using glider_layout_eq by (rule aggregate_init_is_Grid)

lemma glider_step_1: "Life_generation 10 10 glider_generation_0 = glider_generation_1"
  by code_simp

lemma glider_step_2: "Life_generation 10 10 glider_generation_1 = glider_generation_2"
  by code_simp

lemma glider_step_3: "Life_generation 10 10 glider_generation_2 = glider_generation_3"
  by code_simp

lemma glider_step_4: "Life_generation 10 10 glider_generation_3 = glider_generation_4"
  by code_simp

lemma glider_translated: "translate_grid 1 1 glider_generation_0 = glider_generation_4"
  by code_simp

section \<open>The blinker\<close>

lemma live_at_grid_of_cells:
  "live_at R C (grid_of_cells R C cells) x y \<longleftrightarrow>
     in_bounds R C x y \<and> (nat x, nat y) \<in> set cells"
  by (auto simp: live_at_def in_bounds_def grid_of_cells_def nat_less_iff)

text \<open>
  The number of live neighbours of a cell at row distance \<open>a\<close> and column distance \<open>b\<close> from
  the first cell of a horizontal run of three, and from the middle cell of a vertical one.
\<close>

lemma count_horizontal:
  fixes a b :: int
  shows "length (filter (\<lambda>(di, dj). a + di = 0 \<and> (b + dj = 0 \<or> b + dj = 1 \<or> b + dj = 2)) Moore_offsets) =
    (if a = 0 then (if b = -1 \<or> b = 0 \<or> b = 2 \<or> b = 3 then 1 else if b = 1 then 2 else 0)
     else if a = 1 \<or> a = -1 then
       (if b = -1 \<or> b = 3 then 1 else if b = 0 \<or> b = 2 then 2 else if b = 1 then 3 else 0)
     else 0)"
  by (simp add: Moore_offsets_def)

lemma count_vertical:
  fixes a b :: int
  shows "length (filter (\<lambda>(di, dj). b + dj = 0 \<and> (a + di = -1 \<or> a + di = 0 \<or> a + di = 1)) Moore_offsets) =
    (if b = 0 then (if a = -2 \<or> a = -1 \<or> a = 1 \<or> a = 2 then 1 else if a = 0 then 2 else 0)
     else if b = 1 \<or> b = -1 then
       (if a = -2 \<or> a = 2 then 1 else if a = -1 \<or> a = 1 then 2 else if a = 0 then 3 else 0)
     else 0)"
  by (simp add: Moore_offsets_def)

lemma Life_rule_horizontal:
  fixes a b :: int
  shows "Life_rule (a = 0 \<and> (b = 0 \<or> b = 1 \<or> b = 2))
      (length (filter (\<lambda>(di, dj). a + di = 0 \<and> (b + dj = 0 \<or> b + dj = 1 \<or> b + dj = 2)) Moore_offsets))
    = (b = 1 \<and> (a = -1 \<or> a = 0 \<or> a = 1))"
  unfolding count_horizontal by (auto simp: Life_rule_def)

lemma Life_rule_vertical:
  fixes a b :: int
  shows "Life_rule (b = 0 \<and> (a = -1 \<or> a = 0 \<or> a = 1))
      (length (filter (\<lambda>(di, dj). b + dj = 0 \<and> (a + di = -1 \<or> a + di = 0 \<or> a + di = 1)) Moore_offsets))
    = (a = 0 \<and> (b = -1 \<or> b = 0 \<or> b = 1))"
  unfolding count_vertical by (auto simp: Life_rule_def)

lemma grid_of_cells_nth:
  "i < R \<Longrightarrow> j < C \<Longrightarrow> grid_of_cells R C cells ! i ! j \<longleftrightarrow> (i, j) \<in> set cells"
  by (simp add: grid_of_cells_def)

lemma Life_generation_eq_grid_of_cells:
  assumes "\<And>i j. i < R \<Longrightarrow> j < C \<Longrightarrow>
    Life_rule (g ! i ! j) (live_neighbours R C g i j) = ((i, j) \<in> set cells)"
  shows "Life_generation R C g = grid_of_cells R C cells"
  using assms by (simp add: Life_generation_def grid_of_cells_def)

lemma Life_generation_horizontal:
  assumes "1 \<le> r" "r + 1 < R" "c + 2 < C"
  shows "Life_generation R C (grid_of_cells R C [(r, c), (r, c + 1), (r, c + 2)]) =
         grid_of_cells R C [(r - 1, c + 1), (r, c + 1), (r + 1, c + 1)]"
proof -
  let ?L = "[(r, c), (r, c + 1), (r, c + 2)]"
  let ?g = "grid_of_cells R C ?L"
  have cell: "Life_rule (?g ! i ! j) (live_neighbours R C ?g i j) =
      ((i, j) \<in> set [(r - 1, c + 1), (r, c + 1), (r + 1, c + 1)])"
    if ij: "i < R" "j < C" for i j
  proof -
    define a where "a = int i - int r"
    define b where "b = int j - int c"
    have pred: "live_at R C ?g (int i + di) (int j + dj) \<longleftrightarrow>
        a + di = 0 \<and> (b + dj = 0 \<or> b + dj = 1 \<or> b + dj = 2)" for di dj
      using assms unfolding live_at_grid_of_cells in_bounds_def a_def b_def
      by (auto simp: nat_eq_iff)
    have alive: "?g ! i ! j \<longleftrightarrow> a = 0 \<and> (b = 0 \<or> b = 1 \<or> b = 2)"
      unfolding grid_of_cells_nth [OF ij] a_def b_def by auto
    have next_alive: "(i, j) \<in> set [(r - 1, c + 1), (r, c + 1), (r + 1, c + 1)] \<longleftrightarrow>
        b = 1 \<and> (a = -1 \<or> a = 0 \<or> a = 1)"
      using assms(1) unfolding a_def b_def by auto
    show ?thesis
      unfolding live_neighbours_def pred alive next_alive by (rule Life_rule_horizontal)
  qed
  show ?thesis
    by (rule Life_generation_eq_grid_of_cells) (rule cell)
qed

lemma Life_generation_vertical:
  assumes "1 \<le> r" "r + 1 < R" "1 \<le> c" "c + 1 < C"
  shows "Life_generation R C (grid_of_cells R C [(r - 1, c), (r, c), (r + 1, c)]) =
         grid_of_cells R C [(r, c - 1), (r, c), (r, c + 1)]"
proof -
  let ?L = "[(r - 1, c), (r, c), (r + 1, c)]"
  let ?g = "grid_of_cells R C ?L"
  have cell: "Life_rule (?g ! i ! j) (live_neighbours R C ?g i j) =
      ((i, j) \<in> set [(r, c - 1), (r, c), (r, c + 1)])"
    if ij: "i < R" "j < C" for i j
  proof -
    define a where "a = int i - int r"
    define b where "b = int j - int c"
    have pred: "live_at R C ?g (int i + di) (int j + dj) \<longleftrightarrow>
        b + dj = 0 \<and> (a + di = -1 \<or> a + di = 0 \<or> a + di = 1)" for di dj
      using assms unfolding live_at_grid_of_cells in_bounds_def a_def b_def
      by (auto simp: nat_eq_iff)
    have alive: "?g ! i ! j \<longleftrightarrow> b = 0 \<and> (a = -1 \<or> a = 0 \<or> a = 1)"
      using assms(1) unfolding grid_of_cells_nth [OF ij] a_def b_def by auto
    have next_alive: "(i, j) \<in> set [(r, c - 1), (r, c), (r, c + 1)] \<longleftrightarrow>
        a = 0 \<and> (b = -1 \<or> b = 0 \<or> b = 1)"
      using assms(3) unfolding a_def b_def by auto
    show ?thesis
      unfolding live_neighbours_def pred alive next_alive by (rule Life_rule_vertical)
  qed
  show ?thesis
    by (rule Life_generation_eq_grid_of_cells) (rule cell)
qed

section \<open>The claims\<close>

lemma wf_example_state: "wf_GameOfLife 3 3 example_state"
  by (simp add: wf_GameOfLife_def is_Grid_def example_state_def)

lemma wf_example_state': "wf_GameOfLife 3 3 example_state'"
  by (simp add: wf_GameOfLife_def is_Grid_def example_state'_def)

lemma example_state'_reachable:
  "example_state' = setGrid 3 3 (current_grid example_state) (GameOfLife_init 3 3)"
  by code_simp

lemma example_state_reachable:
  "example_state =
     setGrid 3 3 (current_grid example_state) (update 3 3 example_state')"
proof -
  have g: "is_Grid 3 3 (current_grid example_state)"
    using wf_example_state by (simp add: wf_GameOfLife_def)
  have fut: "is_Grid 3 3 (future_grid example_state')"
    using wf_example_state' by (simp add: wf_GameOfLife_def)
  have l: "Life_generation 3 3 (current_grid example_state') = future_grid example_state"
    by code_simp
  have "current_grid (setGrid 3 3 (current_grid example_state) (update 3 3 example_state')) =
      current_grid example_state"
    using g fits_3_3 by (rule current_grid_setGrid)
  moreover have "future_grid (setGrid 3 3 (current_grid example_state) (update 3 3 example_state')) =
      future_grid example_state"
    using l by (simp add: future_grid_setGrid future_grid_update current_grid_update_Life [OF fut])
  ultimately show ?thesis by simp
qed

text \<open>
  C1. For every grid state and every cell position \<open>(i, j)\<close> of the grid, \<^verbatim>\<open>update\<close> sets the
  cell by the standard rule of Life: a live cell with exactly 2 or 3 live neighbours inside
  the grid stays alive and otherwise dies; a dead cell with exactly 3 live neighbours inside
  the grid becomes alive and otherwise stays dead.
\<close>

theorem update_applies_Life_rule:
  assumes "wf_GameOfLife N M s" and "i < unat N" and "j < unat M"
  shows "getGrid (update N M s) ! i ! j =
    (let n = live_neighbours (unat N) (unat M) (getGrid s) i j
     in if getGrid s ! i ! j then n = 2 \<or> n = 3 else n = 3)"
proof -
  have "is_Grid N M (future_grid s)"
    using assms(1) by (simp add: wf_GameOfLife_def)
  then have "getGrid (update N M s) = Life_generation (unat N) (unat M) (getGrid s)"
    by (simp add: getGrid_def current_grid_update_Life)
  then show ?thesis
    using assms(2,3) by (simp add: Life_generation_def Life_rule_def Let_def)
qed

theorem update_applies_Life_rule_witness:
  "wf_GameOfLife 3 3 example_state \<and> 1 < unat (3 :: size_t) \<and> 0 < unat (3 :: size_t) \<and>
   getGrid example_state ! 1 ! 0 = False \<and>
   live_neighbours (unat (3 :: size_t)) (unat (3 :: size_t)) (getGrid example_state) 1 0 = 3 \<and>
   getGrid (update 3 3 example_state) ! 1 ! 0 = True"
proof -
  have h: "1 < unat (3 :: size_t)" "0 < unat (3 :: size_t)" by simp_all
  have c: "getGrid example_state ! 1 ! 0 = False" 
    by (simp add: getGrid_def example_state_def)
  have n: "live_neighbours (unat (3 :: size_t)) (unat (3 :: size_t)) (getGrid example_state) 1 0 = 3"
    by (simp add: live_neighbours_def Moore_offsets_def live_at_def in_bounds_def
        getGrid_def example_state_def)
  show ?thesis
    using update_applies_Life_rule [OF wf_example_state h] wf_example_state h c n
    by (simp add: Let_def)
qed

text \<open>
  C3 (as stated, refuted). The claim: for a pattern smaller than the grid, the cells outside
  the pattern's extent keep the value they had before \<^verbatim>\<open>setGrid\<close>. The grid built from the
  one-cell pattern \<^verbatim>\<open>{{true}}\<close> has all its other cells dead, and \<^verbatim>\<open>setGrid\<close> copies all of
  them: cell \<open>(1, 1)\<close>, alive before the call, is dead after it.
\<close>

theorem setGrid_remainder_counterexample:
  "aggregate_init 3 3 [[True]] =
     Some [[True, False, False], [False, False, False], [False, False, False]] \<and>
   getGrid example_state ! 1 ! 1 = True \<and>
   getGrid (setGrid 3 3 [[True, False, False], [False, False, False], [False, False, False]]
      example_state) ! 1 ! 1 = False"
  by code_simp

text \<open>
  C3 (amended). For every pattern that fits in \<open>R x C\<close>, \<^verbatim>\<open>setGrid\<close> of the grid initialised
  from the pattern writes the pattern's cells starting at row 0, column 0, and every grid
  cell outside the pattern's extent is dead afterwards (the remainder is cleared).
\<close>

theorem setGrid_pattern_at_origin_rest_dead:
  assumes "aggregate_init N M pattern = Some g" and "unat N * unat M < 2 ^ 64"
    and "i < unat N" and "j < unat M"
  shows "getGrid (setGrid N M g s) ! i ! j =
    (i < length pattern \<and> j < length (pattern ! i) \<and> pattern ! i ! j)"
  using assms
  by (simp add: getGrid_def current_grid_setGrid aggregate_init_is_Grid aggregate_init_nth)

theorem setGrid_pattern_at_origin_rest_dead_witness:
  "aggregate_init 3 3 [[True]] =
     Some [[True, False, False], [False, False, False], [False, False, False]] \<and>
   unat (3 :: size_t) * unat (3 :: size_t) < 2 ^ 64 \<and>
   0 < unat (3 :: size_t) \<and> 1 < unat (3 :: size_t) \<and>
   getGrid (setGrid 3 3 [[True, False, False], [False, False, False], [False, False, False]]
      example_state) ! 0 ! 0 = True \<and>
   getGrid (setGrid 3 3 [[True, False, False], [False, False, False], [False, False, False]]
      example_state) ! 1 ! 1 = False"
proof -
  have a: "aggregate_init 3 3 [[True]] =
     Some [[True, False, False], [False, False, False], [False, False, False]]"
    by code_simp
  have h: "0 < unat (3 :: size_t)" "1 < unat (3 :: size_t)" by simp_all
  show ?thesis
    using setGrid_pattern_at_origin_rest_dead [OF a fits_3_3 h(1) h(1), of example_state]
      setGrid_pattern_at_origin_rest_dead [OF a fits_3_3 h(2) h(2), of example_state]
      a fits_3_3 h
    by simp
qed

text \<open>
  C4. For every cell position \<open>(i, j)\<close> of the grid, the count that \<^verbatim>\<open>update\<close> uses is the number
  of offsets of the Moore neighbourhood whose position \<open>(i + di, j + dj)\<close> lies within
  \<open>[0, R) x [0, C)\<close> and holds a live cell; the offsets of the code are the 8 Moore offsets;
  and on a grid with \<open>R, C \<ge> 2\<close> the count at \<open>(0, 0)\<close> is the number of live cells among
  \<open>(0, 1)\<close>, \<open>(1, 0)\<close> and \<open>(1, 1)\<close>, so at most 3. Positions
  outside the grid never count: \<open>i - 1\<close> at \<open>i = 0\<close> wraps to \<open>2^64 - 1\<close>, which is not below
  \<open>N\<close>.
\<close>

theorem numberOfAliveNeighbours_counts_in_bounds_only:
  fixes N M i j :: size_t
  assumes "i < N" and "j < M"
  shows "unat (numberOfAliveNeighbours N M s i j) =
      length (filter (\<lambda>(di, dj).
          in_bounds (unat N) (unat M) (int (unat i) + di) (int (unat j) + dj) \<and>
          current_grid s ! nat (int (unat i) + di) ! nat (int (unat j) + dj)) Moore_offsets)
    \<and> NeighbourOffsets = Moore_offsets
    \<and> (2 \<le> N \<and> 2 \<le> M \<longrightarrow>
         unat (numberOfAliveNeighbours N M s 0 0) =
           length (filter (\<lambda>alive. alive)
             [current_grid s ! 0 ! 1, current_grid s ! 1 ! 0, current_grid s ! 1 ! 1]) \<and>
         numberOfAliveNeighbours N M s 0 0 \<le> 3)"
proof (intro conjI impI)
  show "unat (numberOfAliveNeighbours N M s i j) =
      length (filter (\<lambda>(di, dj).
          in_bounds (unat N) (unat M) (int (unat i) + di) (int (unat j) + dj) \<and>
          current_grid s ! nat (int (unat i) + di) ! nat (int (unat j) + dj)) Moore_offsets)"
    using unat_numberOfAliveNeighbours [OF assms, of s]
    by (simp add: live_neighbours_def live_at_def)
  show "NeighbourOffsets = Moore_offsets"
    by (simp add: Moore_offsets_eq)
next
  assume big: "2 \<le> N \<and> 2 \<le> M"
  then have pos: "0 < N" "0 < M" by unat_arith+
  from big have two: "2 \<le> unat N" "2 \<le> unat M" by (simp_all add: word_le_nat_alt)
  let ?g = "current_grid s"
  have "unat (numberOfAliveNeighbours N M s 0 0) =
      live_neighbours (unat N) (unat M) ?g 0 0"
    using unat_numberOfAliveNeighbours [OF pos, of s] by simp
  also have "\<dots> = length (filter (\<lambda>alive. alive) [?g ! 0 ! 1, ?g ! 1 ! 0, ?g ! 1 ! 1])"
  proof -
    have "(1 :: int) < int (unat N)" "(1 :: int) < int (unat M)" using two by linarith+
    then show ?thesis
      by (simp add: live_neighbours_def Moore_offsets_def live_at_def in_bounds_def)
  qed
  finally show count: "unat (numberOfAliveNeighbours N M s 0 0) =
      length (filter (\<lambda>alive. alive) [?g ! 0 ! 1, ?g ! 1 ! 0, ?g ! 1 ! 1])" .
  have "length (filter (\<lambda>alive. alive) [?g ! 0 ! 1, ?g ! 1 ! 0, ?g ! 1 ! 1]) \<le> 3"
    using length_filter_le [of "\<lambda>alive. alive" "[?g ! 0 ! 1, ?g ! 1 ! 0, ?g ! 1 ! 1]"] by simp
  with count show "numberOfAliveNeighbours N M s 0 0 \<le> 3"
    by (simp add: word_le_nat_alt)
qed

theorem numberOfAliveNeighbours_counts_in_bounds_only_witness:
  "(1 :: size_t) < 3 \<and> (0 :: size_t) < 3 \<and> (2 :: size_t) \<le> 3 \<and>
   unat (numberOfAliveNeighbours 3 3 example_state 1 0) = 3 \<and>
   unat (numberOfAliveNeighbours 3 3 example_state 0 0) = 2 \<and>
   numberOfAliveNeighbours 3 3 example_state 0 0 \<le> 3"
proof -
  have h: "(1 :: size_t) < 3" "(0 :: size_t) < 3" by simp_all
  have b: "(2 :: size_t) \<le> 3" by simp
  have n: "length (filter (\<lambda>(di, dj).
          in_bounds (unat (3 :: size_t)) (unat (3 :: size_t))
            (int (unat (1 :: size_t)) + di) (int (unat (0 :: size_t)) + dj) \<and>
          current_grid example_state ! nat (int (unat (1 :: size_t)) + di)
            ! nat (int (unat (0 :: size_t)) + dj)) Moore_offsets) = 3"
    by (simp add: Moore_offsets_def in_bounds_def example_state_def)
  have c: "length (filter (\<lambda>alive. alive)
             [current_grid example_state ! 0 ! 1, current_grid example_state ! 1 ! 0,
              current_grid example_state ! 1 ! 1]) = 2"
    by (simp add: example_state_def)
  show ?thesis
    using numberOfAliveNeighbours_counts_in_bounds_only [OF h, of example_state] h b n c
    by simp
qed

text \<open>
  C5. After \<^verbatim>\<open>update\<close>, the grid seen through \<^verbatim>\<open>getGrid\<close> is the complete next generation of
  the grid before the call: it is the rule of Life applied at every cell to the grid before
  the call and to nothing else (not to the scratch buffer, not to cells already written); it
  has all \<open>R x C\<close> cells; cell \<open>(i, j)\<close> is \<^verbatim>\<open>evolveCell(i, j)\<close> evaluated in the state before the
  call; and at every point of the two loops the current grid is still the grid before the
  call, so no partly updated generation is in it.
\<close>

theorem update_exposes_complete_generation:
  assumes "wf_GameOfLife N M s"
  shows "getGrid (update N M s) = Life_generation (unat N) (unat M) (getGrid s)
    \<and> getGrid (update N M s) =
      map (\<lambda>i. map (\<lambda>j. evolveCell N M s (of_nat i) (of_nat j)) [0..<unat M]) [0..<unat N]
    \<and> is_Grid N M (getGrid (update N M s))
    \<and> getGrid (update_cols N M i j s) = getGrid s
    \<and> getGrid (update_rows N M i s) = getGrid s"
proof -
  have fut: "is_Grid N M (future_grid s)"
    using assms by (simp add: wf_GameOfLife_def)
  have life: "getGrid (update N M s) = Life_generation (unat N) (unat M) (getGrid s)"
    by (simp add: getGrid_def current_grid_update_Life [OF fut])
  have cells: "getGrid (update N M s) =
      map (\<lambda>i. map (\<lambda>j. evolveCell N M s (of_nat i) (of_nat j)) [0..<unat M]) [0..<unat N]"
    by (simp add: getGrid_def current_grid_update [OF fut])
  have shape: "is_Grid N M (getGrid (update N M s))"
    using wf_update [OF assms] by (simp add: getGrid_def wf_GameOfLife_def)
  have loops: "getGrid (update_cols N M i j s) = getGrid s"
    "getGrid (update_rows N M i s) = getGrid s"
    by (simp_all add: getGrid_def)
  show ?thesis
    using life cells shape loops by blast
qed

theorem update_exposes_complete_generation_witness:
  "wf_GameOfLife 3 3 example_state' \<and>
   getGrid (update 3 3 example_state') = Life_generation 3 3 (getGrid example_state') \<and>
   getGrid (update 3 3 example_state') =
      map (\<lambda>i. map (\<lambda>j. evolveCell 3 3 example_state' (of_nat i) (of_nat j)) [0..<unat (3 :: size_t)])
        [0..<unat (3 :: size_t)] \<and>
   is_Grid 3 3 (getGrid (update 3 3 example_state')) \<and>
   getGrid (update_cols 3 3 1 0 example_state') = getGrid example_state' \<and>
   getGrid (update_rows 3 3 1 example_state') = getGrid example_state' \<and>
   getGrid (update 3 3 example_state') = example_grid \<and>
   getGrid (update 3 3 example_state') \<noteq> future_grid example_state' \<and>
   getGrid (update 3 3 example_state') \<noteq> getGrid example_state'"
proof -
  note t = update_exposes_complete_generation [OF wf_example_state', of 1 0]
  have l: "Life_generation (unat (3 :: size_t)) (unat (3 :: size_t)) (getGrid example_state') = example_grid"
    by code_simp
  have l': "Life_generation 3 3 (getGrid example_state') = example_grid"
    by code_simp
  have v: "getGrid (update 3 3 example_state') = example_grid"
    using t l by simp
  have d: "example_grid \<noteq> future_grid example_state'" "example_grid \<noteq> getGrid example_state'"
    by code_simp+
  show ?thesis
    using t wf_example_state' v l' d by simp
qed

text \<open>
  C6. \<^verbatim>\<open>update\<close> is deterministic in the current grid: two objects whose current grids are
  equal have equal current grids after one \<^verbatim>\<open>update\<close> each, whatever their scratch buffers
  hold.
\<close>

theorem update_deterministic:
  assumes "wf_GameOfLife N M s1" and "wf_GameOfLife N M s2"
    and "getGrid s1 = getGrid s2"
  shows "getGrid (update N M s1) = getGrid (update N M s2)"
proof -
  have "is_Grid N M (future_grid s1)" "is_Grid N M (future_grid s2)"
    using assms(1,2) by (simp_all add: wf_GameOfLife_def)
  then show ?thesis
    using assms(3) by (simp add: getGrid_def current_grid_update_Life)
qed

theorem update_deterministic_witness:
  "wf_GameOfLife 3 3 example_state \<and> wf_GameOfLife 3 3 example_state' \<and>
   getGrid example_state = getGrid example_state' \<and>
   future_grid example_state \<noteq> future_grid example_state' \<and>
   getGrid (update 3 3 example_state) = getGrid (update 3 3 example_state')"
proof -
  have e: "getGrid example_state = getGrid example_state'"
    by (simp add: getGrid_def example_state_def example_state'_def)
  have d: "future_grid example_state \<noteq> future_grid example_state'"
    by (simp add: example_state_def example_state'_def)
  show ?thesis
    using update_deterministic [OF wf_example_state wf_example_state' e]
      wf_example_state wf_example_state' e d
    by simp
qed

text \<open>
  C7. The all-dead grid is a fixed point: from a state whose current grid is all dead, the
  current grid is all dead after any number \<open>n \<ge> 0\<close> of calls of \<^verbatim>\<open>update\<close>.
\<close>

theorem all_dead_fixed_point:
  assumes "wf_GameOfLife N M s" and "getGrid s = all_dead N M"
  shows "getGrid ((update N M ^^ n) s) = all_dead N M"
proof -
  have "wf_GameOfLife N M ((update N M ^^ n) s) \<and>
        current_grid ((update N M ^^ n) s) = all_dead N M"
  proof (induction n)
    case 0
    show ?case using assms by (simp add: getGrid_def)
  next
    case (Suc n)
    then have wf: "wf_GameOfLife N M ((update N M ^^ n) s)"
      and dead: "current_grid ((update N M ^^ n) s) = all_dead N M"
      by simp_all
    have fut: "is_Grid N M (future_grid ((update N M ^^ n) s))"
      using wf by (simp add: wf_GameOfLife_def)
    show ?case
      using wf_update [OF wf]
      by (simp add: current_grid_update_Life [OF fut] dead Life_generation_all_dead)
  qed
  then show ?thesis by (simp add: getGrid_def)
qed

theorem all_dead_fixed_point_witness:
  "wf_GameOfLife 10 10 (GameOfLife_init 10 10) \<and>
   getGrid (GameOfLife_init 10 10) = all_dead 10 10 \<and>
   getGrid ((update 10 10 ^^ 100) (GameOfLife_init 10 10)) = all_dead 10 10"
proof -
  have e: "getGrid (GameOfLife_init 10 10) = all_dead 10 10"
    by (simp add: getGrid_def GameOfLife_init_def)
  show ?thesis
    using all_dead_fixed_point [OF wf_init e, of 100] wf_init [of 10 10] e
    by simp
qed

text \<open>
  C8. The blinker has period 2: on a grid of at least \<open>5 x 5\<close>, from exactly three live cells
  in row \<open>r\<close>, columns \<open>c\<close>, \<open>c + 1\<close>, \<open>c + 2\<close>, the run touching no boundary, one \<^verbatim>\<open>update\<close>
  gives exactly the three live cells of column \<open>c + 1\<close> in rows \<open>r - 1\<close>, \<open>r\<close>, \<open>r + 1\<close>, and a
  second \<^verbatim>\<open>update\<close> gives the horizontal run again.
\<close>

theorem blinker_period_2:
  assumes "wf_GameOfLife N M s"
    and "5 \<le> unat N" and "5 \<le> unat M"
    and "1 \<le> r" and "r + 1 < unat N" and "1 \<le> c" and "c + 3 < unat M"
    and "getGrid s = grid_of_cells (unat N) (unat M) [(r, c), (r, c + 1), (r, c + 2)]"
  shows "getGrid (update N M s) =
      grid_of_cells (unat N) (unat M) [(r - 1, c + 1), (r, c + 1), (r + 1, c + 1)]
    \<and> getGrid (update N M (update N M s)) =
      grid_of_cells (unat N) (unat M) [(r, c), (r, c + 1), (r, c + 2)]"
proof -
  have fut: "is_Grid N M (future_grid s)"
    using assms(1) by (simp add: wf_GameOfLife_def)
  have fut': "is_Grid N M (future_grid (update N M s))"
    using wf_update [OF assms(1)] by (simp add: wf_GameOfLife_def)
  have one: "current_grid (update N M s) =
      grid_of_cells (unat N) (unat M) [(r - 1, c + 1), (r, c + 1), (r + 1, c + 1)]"
    using assms(4,5,7,8) Life_generation_horizontal [of r "unat N" c "unat M"]
    by (simp add: current_grid_update_Life [OF fut] getGrid_def)
  have two: "current_grid (update N M (update N M s)) =
      grid_of_cells (unat N) (unat M) [(r, c), (r, c + 1), (r, c + 2)]"
    using assms(4,5,7) Life_generation_vertical [of r "unat N" "c + 1" "unat M"]
    by (simp add: current_grid_update_Life [OF fut'] one add.assoc)
  show ?thesis
    using one two by (simp add: getGrid_def)
qed

theorem blinker_period_2_witness:
  "wf_GameOfLife 5 5 blinker_state \<and> 5 \<le> unat (5 :: size_t) \<and>
   (1 :: nat) \<le> 2 \<and> (2 :: nat) + 1 < unat (5 :: size_t) \<and>
   (1 :: nat) \<le> 1 \<and> (1 :: nat) + 3 < unat (5 :: size_t) \<and>
   getGrid blinker_state = grid_of_cells 5 5 [(2, 1), (2, 2), (2, 3)] \<and>
   getGrid (update 5 5 blinker_state) =
     [[False, False, False, False, False],
      [False, False, True, False, False],
      [False, False, True, False, False],
      [False, False, True, False, False],
      [False, False, False, False, False]] \<and>
   getGrid (update 5 5 (update 5 5 blinker_state)) = getGrid blinker_state"
proof -
  have wf: "wf_GameOfLife 5 5 blinker_state"
    by (simp add: wf_GameOfLife_def blinker_state_def is_Grid_all_dead) (simp add: is_Grid_def)
  have n: "5 \<le> unat (5 :: size_t)" by simp
  have r: "(1 :: nat) \<le> 2" "(2 :: nat) + 1 < unat (5 :: size_t)" by simp_all
  have c: "(1 :: nat) \<le> 1" "(1 :: nat) + 3 < unat (5 :: size_t)" by simp_all
  have g: "getGrid blinker_state =
      grid_of_cells (unat (5 :: size_t)) (unat (5 :: size_t)) [(2, 1), (2, 1 + 1), (2, 1 + 2)]"
    by code_simp
  have g': "getGrid blinker_state = grid_of_cells 5 5 [(2, 1), (2, 2), (2, 3)]"
    by code_simp
  have v: "grid_of_cells (unat (5 :: size_t)) (unat (5 :: size_t))
        [(2 - 1, 1 + 1), (2, 1 + 1), (2 + 1, 1 + 1)] =
     [[False, False, False, False, False],
      [False, False, True, False, False],
      [False, False, True, False, False],
      [False, False, True, False, False],
      [False, False, False, False, False]]"
    by code_simp
  note t = blinker_period_2 [OF wf n n r c g]
  have one: "getGrid (update 5 5 blinker_state) =
     [[False, False, False, False, False],
      [False, False, True, False, False],
      [False, False, True, False, False],
      [False, False, True, False, False],
      [False, False, False, False, False]]"
    using t v by simp
  have two: "getGrid (update 5 5 (update 5 5 blinker_state)) = getGrid blinker_state"
    using t g by simp
  show ?thesis
    using wf n r c g' one two by blast
qed

text \<open>
  C9. The glider of \<^verbatim>\<open>main\<close>, seeded at the origin of the \<open>10 x 10\<close> grid of a
  default-constructed object: after four calls of \<^verbatim>\<open>update\<close> the grid is the seeded grid
  moved by one row and one column, which is \<open>glider_generation_4\<close>.
\<close>

theorem glider_translation:
  "main_grid_after 0 = Some glider_generation_0 \<and>
   main_grid_after 4 = Some (translate_grid 1 1 glider_generation_0) \<and>
   main_grid_after 4 = Some glider_generation_4"
proof -
  let ?s = "setGrid 10 10 glider_generation_0 (GameOfLife_init 10 10)"
  have fits: "unat (10 :: size_t) * unat (10 :: size_t) < 2 ^ 64" by simp
  have wf: "wf_GameOfLife 10 10 ?s"
    using wf_init is_Grid_glider_generation_0 fits by (rule wf_setGrid)
  have cur: "current_grid ?s = glider_generation_0"
    using is_Grid_glider_generation_0 fits by (rule current_grid_setGrid)
  have run: "current_grid ((update 10 10 ^^ 4) ?s) = (Life_generation 10 10 ^^ 4) glider_generation_0"
    using current_grid_funpow_update [OF wf, of 4] by (simp add: cur)
  have "(4 :: nat) = Suc (Suc (Suc (Suc 0)))" by simp
  then have "(Life_generation 10 10 ^^ 4) glider_generation_0 = glider_generation_4"
    by (simp only: funpow.simps o_apply id_apply
        glider_step_1 glider_step_2 glider_step_3 glider_step_4)
  with run have four: "current_grid ((update 10 10 ^^ 4) ?s) = glider_generation_4"
    by simp
  show ?thesis
    using glider_translated
    by (simp add: main_grid_after_def glider_layout_eq getGrid_def cur four)
qed

text \<open>
  C10. \<^verbatim>\<open>setGrid\<close> leaves the scratch buffer \<^verbatim>\<open>future_grid\<close> as it was, and the grid after a
  following \<^verbatim>\<open>update\<close> is the same from any two states: it depends on the grid that
  \<^verbatim>\<open>setGrid\<close> wrote and not on what the scratch buffer held.
\<close>

theorem setGrid_leaves_future_grid:
  "future_grid (setGrid N M g s) = future_grid s \<and>
   (wf_GameOfLife N M s \<and> wf_GameOfLife N M s' \<and> is_Grid N M g \<and> unat N * unat M < 2 ^ 64 \<longrightarrow>
    getGrid (update N M (setGrid N M g s)) = getGrid (update N M (setGrid N M g s')))"
proof (intro conjI impI)
  show "future_grid (setGrid N M g s) = future_grid s"
    by (rule future_grid_setGrid)
next
  assume a: "wf_GameOfLife N M s \<and> wf_GameOfLife N M s' \<and> is_Grid N M g \<and> unat N * unat M < 2 ^ 64"
  then have "is_Grid N M (future_grid (setGrid N M g s))"
    and "is_Grid N M (future_grid (setGrid N M g s'))"
    by (simp_all add: future_grid_setGrid wf_GameOfLife_def)
  then show "getGrid (update N M (setGrid N M g s)) = getGrid (update N M (setGrid N M g s'))"
    using a by (simp add: getGrid_def current_grid_update_Life current_grid_setGrid)
qed

theorem setGrid_leaves_future_grid_witness:
  "future_grid (setGrid 3 3 example_grid example_state) = future_grid example_state \<and>
   wf_GameOfLife 3 3 example_state \<and> wf_GameOfLife 3 3 example_state' \<and>
   future_grid example_state \<noteq> future_grid example_state' \<and>
   is_Grid 3 3 example_grid \<and> unat (3 :: size_t) * unat (3 :: size_t) < 2 ^ 64 \<and>
   getGrid (update 3 3 (setGrid 3 3 example_grid example_state)) =
   getGrid (update 3 3 (setGrid 3 3 example_grid example_state'))"
proof -
  have d: "future_grid example_state \<noteq> future_grid example_state'"
    by (simp add: example_state_def example_state'_def)
  show ?thesis
    using setGrid_leaves_future_grid [of 3 3 example_grid example_state example_state']
      wf_example_state wf_example_state' is_Grid_example_grid fits_3_3 d
    by blast
qed

end
